theory Spec2Isabelle
  imports Complex_Main
begin

section \<open>JavaScript values, promises and HTTP requests\<close>

text \<open>
  The three scripts of the repository run in a browser.  Their numbers are modelled as
  \<open>real\<close> (the scripts copy, compare and round them, nothing else), their strings as
  \<open>string\<close>, a rejected promise or a thrown exception as the left injection of a sum.
  Conversions of a number to text (\<open>String(x)\<close>, \<open>toFixed\<close>, \<open>toLocaleTimeString\<close>)
  and the Unicode string operations \<open>trim\<close> and \<open>toLowerCase\<close> are built-ins of the
  browser: the functions below take them as parameters.
\<close>

type_synonym number = real

datatype jsval = JSNumber number | JSString string | JSBoolean bool | JSUndefined | JSNull

fun typeof :: "jsval \<Rightarrow> string" where
  "typeof (JSNumber n) = ''number''"
| "typeof (JSString s) = ''string''"
| "typeof (JSBoolean b) = ''boolean''"
| "typeof JSUndefined = ''undefined''"
| "typeof JSNull = ''object''"

text \<open>\<open>String(v)\<close>; the first argument is the number-to-string conversion.\<close>

fun String_of :: "(number \<Rightarrow> string) \<Rightarrow> jsval \<Rightarrow> string" where
  "String_of num (JSNumber n) = num n"
| "String_of num (JSString s) = s"
| "String_of num (JSBoolean b) = (if b then ''true'' else ''false'')"
| "String_of num JSUndefined = ''undefined''"
| "String_of num JSNull = ''null''"

datatype js_error = NetworkError | SyntaxError | TypeError

datatype http_method = GET | POST | DELETE

text \<open>
  A request as \<open>fetch\<close> sends it.  \<open>req_body\<close> holds the entries of the \<open>FormData\<close> body
  in the order they were appended (empty when the call gives no body).
\<close>

record request =
  req_url :: string
  req_method :: http_method
  req_body :: "(string \<times> string) list"
  req_credentials :: string

text \<open>\<open>fetch(u)\<close> with no second argument: a GET without body.\<close>

definition fetch_get :: "string \<Rightarrow> request" where
  "fetch_get u = \<lparr>req_url = u, req_method = GET, req_body = [], req_credentials = ''same-origin''\<rparr>"

text \<open>
  What \<open>await fetch(...)\<close> yields: a rejection, or a response with its \<open>ok\<close> flag and
  what \<open>await r.json()\<close> would yield on it (a rejection when the body is not JSON).
\<close>

record 'a response =
  resp_ok :: bool
  resp_json :: "js_error + 'a"

type_synonym 'a fetched = "js_error + 'a response"

section \<open>The device reporting script (geolocation watch)\<close>

record coordinates =
  latitude :: jsval
  longitude :: jsval
  accuracy :: jsval

text \<open>A position as the browser passes it to the callback; \<open>coords\<close> may be missing.\<close>

record geo_position =
  coords :: "coordinates option"

text \<open>The two variables of the script's closure.\<close>

record geo_state =
  watchId :: "nat option"
  lastSent :: int

definition geo_init :: geo_state where
  "geo_init = \<lparr>watchId = None, lastSent = 0\<rparr>"

text \<open>
  \<open>send(lat, lon, acc)\<close>.  The result is the request handed to \<open>fetch\<close> and the way the
  async function completes (\<open>Inr ()\<close>: its promise is fulfilled).  \<open>outcome\<close> is what
  \<open>await fetch(...)\<close> yields inside the \<open>try\<close> block; the \<open>catch\<close> block is empty.
\<close>

definition send_form :: "(number \<Rightarrow> string) \<Rightarrow> jsval \<Rightarrow> jsval \<Rightarrow> jsval \<Rightarrow> (string \<times> string) list" where
  "send_form num lat lon acc =
     (let form = [];
          form = form @ [(''lat'', String_of num lat)];
          form = form @ [(''lon'', String_of num lon)];
          form = (if typeof acc = ''number'' then form @ [(''acc'', String_of num acc)] else form)
      in form)"

definition send :: "(number \<Rightarrow> string) \<Rightarrow> 'a fetched \<Rightarrow> jsval \<Rightarrow> jsval \<Rightarrow> jsval
    \<Rightarrow> request \<times> (js_error + unit)" where
  "send num outcome lat lon acc =
     (let req = \<lparr>req_url = ''/api/geo/ping'', req_method = POST,
                 req_body = send_form num lat lon acc, req_credentials = ''same-origin''\<rparr>
      in (req, case outcome of
                 Inl e \<Rightarrow> Inr ()
               | Inr r \<Rightarrow> Inr ()))"

text \<open>\<open>pos.coords || {}\<close>: every field of the empty object reads as \<open>undefined\<close>.\<close>

definition coords_or_empty :: "geo_position \<Rightarrow> coordinates" where
  "coords_or_empty pos =
     (case coords pos of
        Some c \<Rightarrow> c
      | None \<Rightarrow> \<lparr>latitude = JSUndefined, longitude = JSUndefined, accuracy = JSUndefined\<rparr>)"

text \<open>
  The success callback of \<open>watchPosition\<close>.  \<open>now\<close> is the value of \<open>Date.now()\<close> in
  milliseconds.  The result is the new closure state and the requests submitted.
\<close>

definition on_position :: "(number \<Rightarrow> string) \<Rightarrow> 'a fetched \<Rightarrow> int \<Rightarrow> geo_position \<Rightarrow> geo_state
    \<Rightarrow> geo_state \<times> request list" where
  "on_position num outcome now pos st =
     (let c = coords_or_empty pos in
      if now - lastSent st < 10000 then (st, [])
      else (let st' = st\<lparr>lastSent := now\<rparr>
            in (st', [fst (send num outcome (latitude c) (longitude c) (accuracy c))])))"

text \<open>The error callback of \<open>watchPosition\<close>: an empty body.\<close>

definition on_error :: "'e \<Rightarrow> geo_state \<Rightarrow> geo_state \<times> request list" where
  "on_error err st = (st, [])"

text \<open>
  \<open>startWatch()\<close>.  \<open>geolocation\<close> is \<open>None\<close> when \<open>navigator.geolocation\<close> is missing,
  and otherwise holds the id that \<open>watchPosition\<close> returns.
\<close>

definition startWatch :: "nat option \<Rightarrow> geo_state \<Rightarrow> js_error + geo_state" where
  "startWatch geolocation st =
     (if geolocation = None \<or> watchId st \<noteq> None then Inr st
      else Inr (st\<lparr>watchId := geolocation\<rparr>))"

definition stopWatch :: "geo_state \<Rightarrow> geo_state" where
  "stopWatch st = (if watchId st \<noteq> None then st\<lparr>watchId := None\<rparr> else st)"

text \<open>
  A run of the success callback over a sequence of firings, each with its clock reading,
  its position and the fate of its request.  The result lists every submission with the
  clock reading at which it was made.
\<close>

fun run_positions :: "(number \<Rightarrow> string) \<Rightarrow> (int \<times> geo_position \<times> 'a fetched) list \<Rightarrow> geo_state
    \<Rightarrow> (int \<times> request) list" where
  "run_positions num [] st = []"
| "run_positions num ((now, pos, outcome) # evs) st =
     (let (st', reqs) = on_position num outcome now pos st
      in map (\<lambda>r. (now, r)) reqs @ run_positions num evs st')"

text \<open>Consecutive entries of a list of clock readings are at least \<open>d\<close> apart.\<close>

fun spaced :: "int \<Rightarrow> int list \<Rightarrow> bool" where
  "spaced d [] = True"
| "spaced d [t] = True"
| "spaced d (t # u # ts) = (u - t \<ge> d \<and> spaced d (u # ts))"

section \<open>The roster and the track as the dashboards receive them\<close>

text \<open>
  One entry of the roster (\<open>/api/online/employees\<close>) as the server produces it has
  a string identity and status and numeric time and coordinates; its accuracy is
  optional, \<open>None\<close> standing for a missing or \<open>null\<close> field.  The map dashboard and
  the functions \<open>applyFilters\<close> and \<open>renderList\<close> of the list dashboard are first
  given on such entries; \<open>refresh\<close> of the list dashboard is given on whatever body
  the response has.  A track is a list of points, of which the script reads \<open>lat\<close>
  and \<open>lon\<close>.
\<close>

record roster_entry =
  employee_id :: string
  fresh_status :: string
  last_ts :: number
  last_lat :: number
  last_lon :: number
  last_accuracy :: "number option"

record point =
  lat :: number
  lon :: number

record track =
  points :: "point list"

datatype callback = CbLoadEmployees | CbRefresh

section \<open>The map dashboard\<close>

text \<open>
  The Leaflet map is modelled by the layer objects created so far (a layer's identity
  is its index in \<open>objects\<close>), the layers currently on the map in the order they
  were added, and the view.  \<open>polyline\<close> and \<open>markers\<close> are the script's globals.
\<close>

type_synonym latlng = "number \<times> number"

datatype layer =
    TileLayer string nat
  | Polyline "latlng list" string
  | Marker latlng string

datatype map_view = SetView latlng nat | FitBounds "latlng list"

record list_entry =
  le_className :: string
  le_textContent :: string
  le_onclick :: string

record online_page =
  objects :: "layer list"
  on_map :: "nat list"
  view :: map_view
  polyline :: "nat option"
  markers :: "string \<rightharpoonup> nat"
  list_items :: "list_entry list"
  intervals :: "(callback \<times> nat) list"

text \<open>\<open>map.removeLayer(l)\<close>: the layer leaves the map; nothing happens when it is not on it.\<close>

definition removeLayer :: "nat \<Rightarrow> online_page \<Rightarrow> online_page" where
  "removeLayer l pg = pg\<lparr>on_map := removeAll l (on_map pg)\<rparr>"

text \<open>\<open>L.xxx(...).addTo(map)\<close>: a new layer object, put on the map; returns its identity.\<close>

definition add_new_layer :: "layer \<Rightarrow> online_page \<Rightarrow> nat \<times> online_page" where
  "add_new_layer lay pg =
     (let l = length (objects pg)
      in (l, pg\<lparr>objects := objects pg @ [lay], on_map := on_map pg @ [l]\<rparr>))"

text \<open>
  \<open>loadEmployees()\<close>.  The result is the request, the way the async function completes
  and the page.  No line of it looks at \<open>res.ok\<close>.
\<close>

definition loadEmployees :: "roster_entry list fetched \<Rightarrow> online_page
    \<Rightarrow> request \<times> (js_error + unit) \<times> online_page" where
  "loadEmployees outcome pg =
     (let req = fetch_get ''/api/online/employees'' in
      case outcome of
        Inl e \<Rightarrow> (req, Inl e, pg)
      | Inr res \<Rightarrow>
          (case resp_json res of
             Inl e \<Rightarrow> (req, Inl e, pg)
           | Inr data \<Rightarrow>
               (let pg = pg\<lparr>list_items := []\<rparr>;
                    pg = foldl (\<lambda>pg emp. pg\<lparr>list_items := list_items pg @
                           [\<lparr>le_className = ''emp '' @ fresh_status emp,
                             le_textContent = employee_id emp @ '' ('' @ fresh_status emp @ '')'',
                             le_onclick = employee_id emp\<rparr>]\<rparr>) pg data
                in (req, Inr (), pg))))"

text \<open>
  \<open>markers[employee_id]\<close>.  \<open>markers\<close> is a plain object: a key it has no entry for
  is looked up in \<open>Object.prototype\<close>, where the key \<open>__proto__\<close> reads as
  \<open>Object.prototype\<close> itself.  (The other members it inherits, \<open>constructor\<close>,
  \<open>toString\<close> and the like, are functions and no layers of the map: removing one
  changes nothing, and the assignment on line 25 then creates an entry, as for a key
  that is missing.)  An assignment to \<open>markers['__proto__']\<close> creates no entry.
\<close>

datatype looked_up = OwnLayer nat | ObjectPrototype | Missing

definition markers_lookup :: "online_page \<Rightarrow> string \<Rightarrow> looked_up" where
  "markers_lookup pg k =
     (case markers pg k of
        Some m \<Rightarrow> OwnLayer m
      | None \<Rightarrow> if k = ''__proto__'' then ObjectPrototype else Missing)"

fun is_polyline :: "layer \<Rightarrow> bool" where
  "is_polyline (Polyline ll c) = True"
| "is_polyline lay = False"

text \<open>
  \<open>showTrack(employee_id)\<close>.  \<open>today\<close> is \<open>new Date().toISOString().slice(0,10)\<close>.
  Everything after the two \<open>await\<close>s runs without interruption.

  When line 20 finds \<open>Object.prototype\<close>, \<open>map.removeLayer\<close> takes no layer off the
  map but gives \<open>Object.prototype\<close> a Leaflet id, which every object without an id of
  its own then inherits, and Leaflet takes the layers made from then on for one and
  the same layer.  If the polyline of line 23 is the first of the map, its renderer is
  not put on the map and \<open>addTo\<close> throws a \<open>TypeError\<close>: the function ends there.
  Otherwise the polyline is drawn, and the marker of line 25 is made but not put on
  the map.  The page does not record the id on \<open>Object.prototype\<close>: what Leaflet
  does on the calls after this one is not followed.
\<close>

definition showTrack :: "string \<Rightarrow> string \<Rightarrow> track fetched \<Rightarrow> online_page
    \<Rightarrow> request \<times> (js_error + unit) \<times> online_page" where
  "showTrack emp_id today outcome pg =
     (let req = fetch_get (''/api/online/track?employee_id='' @ emp_id @ ''&date='' @ today) in
      case outcome of
        Inl e \<Rightarrow> (req, Inl e, pg)
      | Inr res \<Rightarrow>
          (case resp_json res of
             Inl e \<Rightarrow> (req, Inl e, pg)
           | Inr data \<Rightarrow>
               (let pg = (case polyline pg of Some l \<Rightarrow> removeLayer l pg | None \<Rightarrow> pg);
                    found = markers_lookup pg emp_id;
                    pg = (case found of
                            OwnLayer m \<Rightarrow> removeLayer m pg
                          | ObjectPrototype \<Rightarrow> pg
                          | Missing \<Rightarrow> pg)
                in if length (points data) = 0 then (req, Inr (), pg)
                   else if found = ObjectPrototype then
                     (if \<not> list_ex is_polyline (objects pg) then (req, Inl TypeError, pg)
                      else
                        (let latlngs = map (\<lambda>p. (lat p, lon p)) (points data);
                             (l, pg) = add_new_layer (Polyline latlngs ''blue'') pg;
                             pg = pg\<lparr>polyline := Some l\<rparr>;
                             last_ll = latlngs ! (length latlngs - 1);
                             pg = pg\<lparr>objects := objects pg @ [Marker last_ll emp_id]\<rparr>;
                             pg = pg\<lparr>view := FitBounds latlngs\<rparr>
                         in (req, Inr (), pg)))
                   else
                     (let latlngs = map (\<lambda>p. (lat p, lon p)) (points data);
                          (l, pg) = add_new_layer (Polyline latlngs ''blue'') pg;
                          pg = pg\<lparr>polyline := Some l\<rparr>;
                          last_ll = latlngs ! (length latlngs - 1);
                          (m, pg) = add_new_layer (Marker last_ll emp_id) pg;
                          pg = pg\<lparr>markers := (markers pg)(emp_id \<mapsto> m)\<rparr>;
                          pg = pg\<lparr>view := FitBounds latlngs\<rparr>
                      in (req, Inr (), pg)))))"

text \<open>
  \<open>window.onload\<close>: the map, its tile layer, the first \<open>loadEmployees()\<close> and the
  polling timer.  \<open>loadEmployees()\<close> is not awaited: its request leaves at once and the
  rest of it, which writes the list only, runs when the response is there.
\<close>

definition window_onload :: "roster_entry list fetched \<Rightarrow> request \<times> online_page" where
  "window_onload outcome =
     (let pg = \<lparr>objects = [], on_map = [], view = SetView (55.75, 37.61) 10,
                polyline = None, markers = Map.empty, list_items = [], intervals = []\<rparr>;
          (t, pg) = add_new_layer
                      (TileLayer ''https://{s}.tile.openstreetmap.org/{z}/{x}/{y}.png'' 19) pg;
          (req, res, pg) = loadEmployees outcome pg;
          pg = pg\<lparr>intervals := intervals pg @ [(CbLoadEmployees, 10000)]\<rparr>
      in (req, pg))"

section \<open>The list dashboard\<close>

text \<open>
  The built-ins of the browser the list dashboard calls: \<open>String.prototype.trim\<close> and
  \<open>toLowerCase\<close>, \<open>Number.prototype.toFixed\<close>, \<open>toLocaleTimeString\<close> of the
  \<open>Date\<close> made from a number of milliseconds, and the conversions of a number to a
  string and of a string to a number (\<open>None\<close> is \<open>NaN\<close>).
\<close>

record builtins =
  trim :: "string \<Rightarrow> string"
  toLowerCase :: "string \<Rightarrow> string"
  toFixed :: "number \<Rightarrow> nat \<Rightarrow> string"
  toLocaleTimeString :: "number \<Rightarrow> string"
  numberToString :: "number \<Rightarrow> string"
  stringToNumber :: "string \<Rightarrow> number option"

text \<open>\<open>s.includes(q)\<close>: \<open>q\<close> occurs in \<open>s\<close> as a contiguous run.\<close>

fun starts_with :: "string \<Rightarrow> string \<Rightarrow> bool" where
  "starts_with s [] = True"
| "starts_with [] (c # q) = False"
| "starts_with (d # s) (c # q) = (d = c \<and> starts_with s q)"

fun js_includes :: "string \<Rightarrow> string \<Rightarrow> bool" where
  "js_includes [] q = (q = [])"
| "js_includes (d # s) q = (starts_with (d # s) q \<or> js_includes s q)"

text \<open>\<open>Math.round\<close>: the nearest integer, a tie going up.\<close>

definition Math_round :: "number \<Rightarrow> int" where
  "Math_round x = \<lfloor>x + 1 / 2\<rfloor>"

text \<open>
  An integer in a template literal, in decimal (JavaScript changes to the exponent
  form from \<open>10^21\<close> on, which no accuracy in meters reaches).
\<close>

fun show_nat :: "nat \<Rightarrow> string" where
  "show_nat n =
     (if n < 10 then [''0123456789'' ! n]
      else show_nat (n div 10) @ [''0123456789'' ! (n mod 10)])"

declare show_nat.simps [simp del]

definition show_int :: "int \<Rightarrow> string" where
  "show_int i = (if i < 0 then ''-'' @ show_nat (nat (- i)) else show_nat (nat i))"

text \<open>\<open>x || 0\<close> on an optional number: a missing, \<open>null\<close> or zero \<open>x\<close> gives \<open>0\<close>.\<close>

definition or_zero :: "number option \<Rightarrow> number" where
  "or_zero x = (case x of None \<Rightarrow> 0 | Some v \<Rightarrow> if v = 0 then 0 else v)"

text \<open>\<open>s || ''\<close> on a string.\<close>

definition or_empty :: "string \<Rightarrow> string" where
  "or_empty s = (if s = [] then [] else s)"

datatype dom_node = Element string "(string \<times> string) list" "dom_node list" | TextNode string

text \<open>
  The page of the list dashboard: the values of the two filter controls, the children
  of \<open>#employees\<close>, what went to \<open>console.error\<close>, the listeners and the timers.
\<close>

record list_page =
  status_filter :: string
  search :: string
  employees :: "dom_node list"
  console :: "js_error list"
  listeners :: "(string \<times> string \<times> callback) list"
  timers :: "(callback \<times> nat) list"

text \<open>
  The texts of the page are Russian; they are written here in Latin letters, with
  \<open>+-\<close> for the plus-minus sign and \<open>|\<close> for the middle dot.
\<close>

definition empty_notice :: dom_node where
  "empty_notice =
     Element ''div'' [(''class'', ''empty'')]
       [TextNode ''Net dannyh po personalnym otmetkam za segodnya.'']"

definition error_notice :: dom_node where
  "error_notice =
     Element ''div'' [(''class'', ''error'')]
       [TextNode ''Oshibka zagruzki /api/online/employees'']"

subsection \<open>The two functions on a well-formed roster\<close>

definition meta_text :: "builtins \<Rightarrow> roster_entry \<Rightarrow> string" where
  "meta_text B e =
     ''Poslednyaya tochka: '' @ toLocaleTimeString B (last_ts e * 1000) @ '' | ''
       @ toFixed B (last_lat e) 5 @ '', '' @ toFixed B (last_lon e) 5 @ '' | +-''
       @ show_int (Math_round (or_zero (last_accuracy e))) @ ''m''"

definition employee_card :: "builtins \<Rightarrow> roster_entry \<Rightarrow> dom_node" where
  "employee_card B e =
     (let title = Element ''div'' [(''class'', ''fio'')] [TextNode (employee_id e)];
          meta = Element ''div'' [(''class'', ''meta'')] [TextNode (meta_text B e)];
          openOnMap = Element ''a'' [(''href'', ''/online''), (''target'', ''_blank'')]
                        [TextNode ''Otkryt kartu''];
          actions = Element ''div'' [(''class'', ''actions'')] [openOnMap]
      in Element ''div'' [(''class'', ''emp '' @ fresh_status e)] [title, meta, actions])"

definition renderList :: "builtins \<Rightarrow> roster_entry list \<Rightarrow> list_page \<Rightarrow> list_page" where
  "renderList B items pg =
     (let pg = pg\<lparr>employees := []\<rparr> in
      if length items = 0 then pg\<lparr>employees := employees pg @ [empty_notice]\<rparr>
      else foldl (\<lambda>pg e. pg\<lparr>employees := employees pg @ [employee_card B e]\<rparr>) pg items)"

text \<open>
  \<open>applyFilters(items)\<close>: it reads the two controls and returns a new array; the
  page is returned as it was, the function has no assignment to it.
\<close>

definition applyFilters :: "builtins \<Rightarrow> roster_entry list \<Rightarrow> list_page
    \<Rightarrow> roster_entry list \<times> list_page" where
  "applyFilters B items pg =
     (let status = status_filter pg;
          q = toLowerCase B (trim B (or_empty (search pg)))
      in (filter (\<lambda>e.
            let okStatus = (status = ''all'') \<or> (fresh_status e = status);
                okSearch = (q = []) \<or> js_includes (toLowerCase B (employee_id e)) q
            in okStatus \<and> okSearch) items, pg))"

subsection \<open>The two functions on any parsed body\<close>

text \<open>
  \<open>refresh\<close> hands to \<open>applyFilters\<close> and \<open>renderList\<close> whatever \<open>r.json()\<close> has
  parsed.  A parsed value is \<open>null\<close>, a boolean, a number, a string, an array or an
  object (its members in the order of the text); a value read from a property may
  also be \<open>undefined\<close>, which is \<open>None\<close> below.
\<close>

datatype json =
    JNull
  | JBool bool
  | JNum number
  | JStr string
  | JArr "json list"
  | JObj "(string \<times> json) list"

text \<open>
  \<open>e.k\<close> for one of the six field names of a roster entry.  No prototype has a member
  of these names, so only an object has them, as its own members (the last one of a
  repeated key); \<open>null\<close> has no properties and reading one throws.
\<close>

definition own_field :: "json \<Rightarrow> string \<Rightarrow> json option" where
  "own_field e k = (case e of JObj fs \<Rightarrow> map_of (rev fs) k | _ \<Rightarrow> None)"

definition get_field :: "json \<Rightarrow> string \<Rightarrow> js_error + json option" where
  "get_field e k = (if e = JNull then Inl TypeError else Inr (own_field e k))"

text \<open>The conversion to a string, as \<open>+\<close> with a string applies it.\<close>

fun join_comma :: "string list \<Rightarrow> string" where
  "join_comma [] = []"
| "join_comma [s] = s"
| "join_comma (s # t # ss) = s @ '','' @ join_comma (t # ss)"

fun json_ToString :: "builtins \<Rightarrow> json \<Rightarrow> string" where
  "json_ToString B JNull = ''null''"
| "json_ToString B (JBool b) = (if b then ''true'' else ''false'')"
| "json_ToString B (JNum n) = numberToString B n"
| "json_ToString B (JStr s) = s"
| "json_ToString B (JArr xs) =
     join_comma (map (\<lambda>x. if x = JNull then [] else json_ToString B x) xs)"
| "json_ToString B (JObj fs) = ''[object Object]''"

definition ToString :: "builtins \<Rightarrow> json option \<Rightarrow> string" where
  "ToString B v = (case v of None \<Rightarrow> ''undefined'' | Some x \<Rightarrow> json_ToString B x)"

text \<open>Assigning to \<open>textContent\<close>: \<open>null\<close> and \<open>undefined\<close> give the empty text.\<close>

definition textContent_of :: "builtins \<Rightarrow> json option \<Rightarrow> string" where
  "textContent_of B v =
     (case v of None \<Rightarrow> [] | Some JNull \<Rightarrow> [] | Some x \<Rightarrow> json_ToString B x)"

text \<open>The conversion to a number; \<open>None\<close> is \<open>NaN\<close>.\<close>

definition ToNumber :: "builtins \<Rightarrow> json option \<Rightarrow> number option" where
  "ToNumber B v =
     (case v of
        None \<Rightarrow> None
      | Some JNull \<Rightarrow> Some 0
      | Some (JBool b) \<Rightarrow> Some (if b then 1 else 0)
      | Some (JNum n) \<Rightarrow> Some n
      | Some (JStr s) \<Rightarrow> stringToNumber B s
      | Some (JArr xs) \<Rightarrow> stringToNumber B (json_ToString B (JArr xs))
      | Some (JObj fs) \<Rightarrow> None)"

fun truthy :: "json option \<Rightarrow> bool" where
  "truthy None = False"
| "truthy (Some JNull) = False"
| "truthy (Some (JBool b)) = b"
| "truthy (Some (JNum n)) = (n \<noteq> 0)"
| "truthy (Some (JStr s)) = (s \<noteq> [])"
| "truthy (Some (JArr xs)) = True"
| "truthy (Some (JObj fs)) = True"

text \<open>\<open>new Date(v * 1000).toLocaleTimeString()\<close>.\<close>

definition time_text :: "builtins \<Rightarrow> json option \<Rightarrow> string" where
  "time_text B v =
     (case ToNumber B v of
        None \<Rightarrow> ''Invalid Date''
      | Some n \<Rightarrow> toLocaleTimeString B (n * 1000))"

text \<open>\<open>Math.round(v || 0)\<close> in a template literal.\<close>

definition rounded_text :: "builtins \<Rightarrow> json option \<Rightarrow> string" where
  "rounded_text B v =
     (case ToNumber B (if truthy v then v else Some (JNum 0)) of
        None \<Rightarrow> ''NaN''
      | Some x \<Rightarrow> show_int (Math_round x))"

text \<open>\<open>v.toFixed(5)\<close>: only a number has the method.\<close>

definition toFixed_any :: "builtins \<Rightarrow> json option \<Rightarrow> js_error + string" where
  "toFixed_any B v = (case v of Some (JNum n) \<Rightarrow> Inr (toFixed B n 5) | _ \<Rightarrow> Inl TypeError)"

text \<open>The body of the loop of \<open>renderList\<close> for one element.\<close>

definition employee_card_any :: "builtins \<Rightarrow> json \<Rightarrow> js_error + dom_node" where
  "employee_card_any B e =
     (case get_field e ''fresh_status'' of
        Inl err \<Rightarrow> Inl err
      | Inr fs \<Rightarrow>
          (case toFixed_any B (own_field e ''last_lat'') of
             Inl err \<Rightarrow> Inl err
           | Inr la \<Rightarrow>
               (case toFixed_any B (own_field e ''last_lon'') of
                  Inl err \<Rightarrow> Inl err
                | Inr lo \<Rightarrow>
                    (let title = Element ''div'' [(''class'', ''fio'')]
                                   [TextNode (textContent_of B (own_field e ''employee_id''))];
                         meta = Element ''div'' [(''class'', ''meta'')]
                                  [TextNode (''Poslednyaya tochka: ''
                                     @ time_text B (own_field e ''last_ts'') @ '' | ''
                                     @ la @ '', '' @ lo @ '' | +-''
                                     @ rounded_text B (own_field e ''last_accuracy'') @ ''m'')];
                         openOnMap = Element ''a'' [(''href'', ''/online''), (''target'', ''_blank'')]
                                       [TextNode ''Otkryt kartu''];
                         actions = Element ''div'' [(''class'', ''actions'')] [openOnMap]
                     in Inr (Element ''div'' [(''class'', ''emp '' @ ToString B fs)]
                               [title, meta, actions])))))"

text \<open>The loop of \<open>renderList\<close>: it stops at the first element that throws.\<close>

fun render_cards :: "builtins \<Rightarrow> json list \<Rightarrow> list_page \<Rightarrow> (js_error + unit) \<times> list_page" where
  "render_cards B [] pg = (Inr (), pg)"
| "render_cards B (e # es) pg =
     (case employee_card_any B e of
        Inl err \<Rightarrow> (Inl err, pg)
      | Inr c \<Rightarrow> render_cards B es (pg\<lparr>employees := employees pg @ [c]\<rparr>))"

definition renderList_any :: "builtins \<Rightarrow> json list \<Rightarrow> list_page
    \<Rightarrow> (js_error + unit) \<times> list_page" where
  "renderList_any B items pg =
     (let pg = pg\<lparr>employees := []\<rparr> in
      if length items = 0 then (Inr (), pg\<lparr>employees := employees pg @ [empty_notice]\<rparr>)
      else render_cards B items pg)"

text \<open>
  The callback of \<open>filter\<close> for one element.  \<open>||\<close> does not evaluate its right
  operand when the left one holds: with the selection \<open>all\<close> the status is not read,
  with an empty search text the identity is not read.
\<close>

definition keep_entry :: "builtins \<Rightarrow> string \<Rightarrow> string \<Rightarrow> json \<Rightarrow> js_error + bool" where
  "keep_entry B status q e =
     (case (if status = ''all'' then Inr True
            else (case get_field e ''fresh_status'' of
                    Inl err \<Rightarrow> Inl err
                  | Inr v \<Rightarrow> Inr (v = Some (JStr status)))) of
        Inl err \<Rightarrow> Inl err
      | Inr okStatus \<Rightarrow>
          (case (if q = [] then Inr True
                 else (case get_field e ''employee_id'' of
                         Inl err \<Rightarrow> Inl err
                       | Inr v \<Rightarrow>
                           (case v of
                              Some (JStr s) \<Rightarrow> Inr (js_includes (toLowerCase B s) q)
                            | _ \<Rightarrow> Inl TypeError))) of
             Inl err \<Rightarrow> Inl err
           | Inr okSearch \<Rightarrow> Inr (okStatus \<and> okSearch)))"

text \<open>\<open>Array.prototype.filter\<close> with a callback that may throw.\<close>

fun filter_any :: "(json \<Rightarrow> js_error + bool) \<Rightarrow> json list \<Rightarrow> js_error + json list" where
  "filter_any f [] = Inr []"
| "filter_any f (e # es) =
     (case f e of
        Inl err \<Rightarrow> Inl err
      | Inr keep \<Rightarrow>
          (case filter_any f es of
             Inl err \<Rightarrow> Inl err
           | Inr r \<Rightarrow> Inr (if keep then e # r else r)))"

text \<open>\<open>applyFilters(items)\<close>: only an array has the method \<open>filter\<close>.\<close>

definition applyFilters_any :: "builtins \<Rightarrow> json \<Rightarrow> list_page \<Rightarrow> js_error + json list" where
  "applyFilters_any B body pg =
     (let status = status_filter pg;
          q = toLowerCase B (trim B (or_empty (search pg)))
      in case body of
           JArr items \<Rightarrow> filter_any (keep_entry B status q) items
         | _ \<Rightarrow> Inl TypeError)"

text \<open>A roster entry as the object the server sends for it.\<close>

definition entry_json :: "roster_entry \<Rightarrow> json" where
  "entry_json e =
     JObj ([(''employee_id'', JStr (employee_id e)), (''fresh_status'', JStr (fresh_status e)),
            (''last_ts'', JNum (last_ts e)), (''last_lat'', JNum (last_lat e)),
            (''last_lon'', JNum (last_lon e))]
           @ (case last_accuracy e of None \<Rightarrow> [] | Some a \<Rightarrow> [(''last_accuracy'', JNum a)]))"

text \<open>
  \<open>fetchEmployees()\<close>: the request and what the async function yields.  The body of
  an OK response is whatever \<open>r.json()\<close> parses, not necessarily a roster.
\<close>

definition fetchEmployees :: "json fetched \<Rightarrow> request \<times> (js_error + json)" where
  "fetchEmployees outcome =
     (let req = fetch_get ''/api/online/employees'' in
      case outcome of
        Inl e \<Rightarrow> (req, Inl e)
      | Inr r \<Rightarrow> if \<not> resp_ok r then (req, Inr (JArr [])) else (req, resp_json r))"

text \<open>
  \<open>refresh()\<close>.  The \<open>try\<close> block holds the fetch, the filter and the rendering; the
  \<open>catch\<close> block logs the error and shows the error notice.
\<close>

definition refresh_catch :: "js_error \<Rightarrow> list_page \<Rightarrow> list_page" where
  "refresh_catch e pg =
     (let pg = pg\<lparr>console := console pg @ [e]\<rparr>
      in pg\<lparr>employees := [error_notice]\<rparr>)"

definition refresh :: "builtins \<Rightarrow> json fetched \<Rightarrow> list_page \<Rightarrow> request \<times> list_page" where
  "refresh B outcome pg =
     (let (req, r) = fetchEmployees outcome in
      case r of
        Inl e \<Rightarrow> (req, refresh_catch e pg)
      | Inr data \<Rightarrow>
          (case applyFilters_any B data pg of
             Inl e \<Rightarrow> (req, refresh_catch e pg)
           | Inr shown \<Rightarrow>
               (case renderList_any B shown pg of
                  (Inl e, pg') \<Rightarrow> (req, refresh_catch e pg')
                | (Inr u, pg') \<Rightarrow> (req, pg'))))"

text \<open>
  The first \<open>DOMContentLoaded\<close> listener of the script.  \<open>refresh()\<close> is not
  awaited: its request leaves at once and the rest of it, which leaves the timers
  alone, runs when the response is there.
\<close>

definition dom_content_loaded :: "builtins \<Rightarrow> json fetched \<Rightarrow> list_page
    \<Rightarrow> request \<times> list_page" where
  "dom_content_loaded B outcome pg =
     (let pg = pg\<lparr>listeners := listeners pg @ [(''refresh'', ''click'', CbRefresh)]\<rparr>;
          pg = pg\<lparr>listeners := listeners pg @ [(''status-filter'', ''change'', CbRefresh)]\<rparr>;
          pg = pg\<lparr>listeners := listeners pg @ [(''search'', ''input'', CbRefresh)]\<rparr>;
          (req, pg) = refresh B outcome pg;
          pg = pg\<lparr>timers := timers pg @ [(CbRefresh, 15000)]\<rparr>
      in (req, pg))"

section \<open>The freshness evaluator\<close>

datatype status = Fresh | Stale | Offline

text \<open>
  Modelled from the spec: \<open>classify(now, last_timestamp)\<close> of the freshness evaluator,
  which runs on the server and is not among the sources.  The thresholds \<open>T_fresh\<close>
  and \<open>T_offline\<close> are configuration constants, taken as parameters; times are integer
  seconds.
\<close>

definition classify :: "int \<Rightarrow> int \<Rightarrow> int \<Rightarrow> int \<Rightarrow> status" where
  "classify T_fresh T_offline now last_timestamp =
     (if now - last_timestamp \<le> T_fresh then Fresh
      else if now - last_timestamp \<le> T_offline then Stale
      else Offline)"

text \<open>The order in which a status ages.\<close>

fun status_rank :: "status \<Rightarrow> nat" where
  "status_rank Fresh = 0"
| "status_rank Stale = 1"
| "status_rank Offline = 2"

section \<open>Auxiliary notions for the properties\<close>

text \<open>
  The invariant of the map dashboard: the globals refer to layer objects that exist,
  \<open>polyline\<close> to a polyline and \<open>markers[k]\<close> to the marker whose popup is \<open>k\<close>, and
  only existing layers are on the map.
\<close>

fun marker_popup :: "layer \<Rightarrow> string option" where
  "marker_popup (Marker ll k) = Some k"
| "marker_popup lay = None"

definition wf_page :: "online_page \<Rightarrow> bool" where
  "wf_page pg \<longleftrightarrow>
     (\<forall>l. polyline pg = Some l \<longrightarrow>
        l < length (objects pg) \<and> is_polyline (objects pg ! l)) \<and>
     (\<forall>k m. markers pg k = Some m \<longrightarrow>
        m < length (objects pg) \<and> marker_popup (objects pg ! m) = Some k) \<and>
     (\<forall>x. x \<in> set (on_map pg) \<longrightarrow> x < length (objects pg))"







text \<open>The polling interval recommended for the dashboards, in milliseconds.\<close>

definition recommended_poll :: "nat \<Rightarrow> bool" where
  "recommended_poll ms \<longleftrightarrow> 10000 \<le> ms \<and> ms \<le> 15000"

text \<open>
  The filter as the specification words it: the status test, and the identity key
  containing the search text without regard to case (every entry when the search text
  is empty).  It is compared with \<open>applyFilters\<close> below.
\<close>

definition filter_as_specified :: "builtins \<Rightarrow> roster_entry list \<Rightarrow> list_page \<Rightarrow> roster_entry list" where
  "filter_as_specified B items pg =
     filter (\<lambda>e. (status_filter pg = ''all'' \<or> fresh_status e = status_filter pg) \<and>
                 (search pg = [] \<or>
                  js_includes (toLowerCase B (employee_id e)) (toLowerCase B (search pg)))) items"

text \<open>
  The built-ins on ASCII text, for evaluating the functions on concrete pages:
  \<open>trim\<close> strips blanks, tabs and line breaks at both ends, \<open>toLowerCase\<close> maps
  \<open>A\<close>..\<open>Z\<close> to \<open>a\<close>..\<open>z\<close>.  The number formats and conversions are placeholders.
\<close>

definition is_blank :: "char \<Rightarrow> bool" where
  "is_blank c = (let n = (of_char c :: nat) in n = 32 \<or> (9 \<le> n \<and> n \<le> 13))"

definition ascii_trim :: "string \<Rightarrow> string" where
  "ascii_trim s = rev (dropWhile is_blank (rev (dropWhile is_blank s)))"

definition ascii_lower :: "char \<Rightarrow> char" where
  "ascii_lower c =
     (let n = (of_char c :: nat) in if 65 \<le> n \<and> n \<le> 90 then char_of (n + 32) else c)"

definition ascii_builtins :: builtins where
  "ascii_builtins =
     \<lparr>trim = ascii_trim, toLowerCase = map ascii_lower,
      toFixed = (\<lambda>x d. ''#''), toLocaleTimeString = (\<lambda>t. ''hh:mm:ss''),
      numberToString = (\<lambda>x. ''#''), stringToNumber = (\<lambda>s. None)\<rparr>"

section \<open>Lemmas about the embedding\<close>

subsection \<open>The throttle of the success callback\<close>

lemma on_position_cases:
  "on_position num outcome now pos st =
     (if now - lastSent st < 10000 then (st, [])
      else (st\<lparr>lastSent := now\<rparr>,
            [fst (send num outcome (latitude (coords_or_empty pos))
                   (longitude (coords_or_empty pos)) (accuracy (coords_or_empty pos)))]))"
  by (simp add: on_position_def Let_def)

text \<open>The first submission of a run comes at least ten seconds after \<open>lastSent\<close>.\<close>

lemma run_positions_head:
  "run_positions num evs st = (t, r) # rest \<Longrightarrow> t - lastSent st \<ge> 10000"
proof (induction evs arbitrary: st)
  case Nil
  then show ?case by simp
next
  case (Cons ev evs)
  obtain now pos outcome where ev: "ev = (now, pos, outcome)" by (cases ev) auto
  show ?case
  proof (cases "now - lastSent st < 10000")
    case True
    with Cons.prems ev have "run_positions num evs st = (t, r) # rest"
      by (simp add: on_position_cases)
    then show ?thesis by (rule Cons.IH)
  next
    case False
    with Cons.prems ev have "t = now"
      by (simp add: on_position_cases)
    with False show ?thesis by simp
  qed
qed

lemma run_positions_spaced:
  "spaced 10000 (map fst (run_positions num evs st))"
proof (induction evs arbitrary: st)
  case Nil
  show ?case by simp
next
  case (Cons ev evs)
  obtain now pos outcome where ev: "ev = (now, pos, outcome)" by (cases ev) auto
  show ?case
  proof (cases "now - lastSent st < 10000")
    case True
    then show ?thesis using Cons.IH [of st] ev by (simp add: on_position_cases)
  next
    case False
    let ?st' = "st\<lparr>lastSent := now\<rparr>"
    have tail: "spaced 10000 (map fst (run_positions num evs ?st'))" by (rule Cons.IH)
    have "spaced 10000 (now # map fst (run_positions num evs ?st'))"
    proof (cases "run_positions num evs ?st'")
      case Nil
      then show ?thesis by simp
    next
      case (Cons p rest)
      obtain t r where p: "p = (t, r)" by (cases p) auto
      from run_positions_head [of num evs ?st' t r rest] Cons p
      have "t - now \<ge> 10000" by simp
      with tail Cons p show ?thesis by simp
    qed
    with False ev show ?thesis by (simp add: on_position_cases)
  qed
qed

subsection \<open>The request of \<open>send\<close>\<close>

lemma send_form_keys:
  "map fst (send_form num la lo acc) =
     (if typeof acc = ''number'' then [''lat'', ''lon'', ''acc''] else [''lat'', ''lon''])"
  by (simp add: send_form_def)

lemma send_request:
  "fst (send num outcome la lo acc) =
     \<lparr>req_url = ''/api/geo/ping'', req_method = POST,
      req_body = send_form num la lo acc, req_credentials = ''same-origin''\<rparr>"
  by (simp add: send_def)

subsection \<open>The list dashboard\<close>

lemma foldl_append_employees:
  "foldl (\<lambda>pg e. pg\<lparr>employees := employees pg @ [f e]\<rparr>) pg items
     = pg\<lparr>employees := employees pg @ map f items\<rparr>"
  by (induction items arbitrary: pg) simp_all

lemma renderList_eq:
  "renderList B items pg =
     pg\<lparr>employees := (if items = [] then [empty_notice] else map (employee_card B) items)\<rparr>"
  by (simp add: renderList_def foldl_append_employees)

lemma or_empty_id: "or_empty s = s"
  by (simp add: or_empty_def)

lemma starts_with_iff: "starts_with s q \<longleftrightarrow> (\<exists>r. s = q @ r)"
  by (induction s q rule: starts_with.induct) auto

text \<open>\<open>js_includes\<close> is the substring test.\<close>

lemma js_includes_iff: "js_includes s q \<longleftrightarrow> (\<exists>p r. s = p @ q @ r)"
proof (induction s)
  case Nil
  then show ?case by simp
next
  case (Cons d s)
  show ?case
  proof
    assume "js_includes (d # s) q"
    then consider "starts_with (d # s) q" | "js_includes s q" by auto
    then show "\<exists>p r. d # s = p @ q @ r"
    proof cases
      case 1
      then obtain r where "d # s = q @ r" by (auto simp: starts_with_iff)
      then have "d # s = [] @ q @ r" by simp
      then show ?thesis by blast
    next
      case 2
      then obtain p r where "s = p @ q @ r" using Cons.IH by auto
      then have "d # s = (d # p) @ q @ r" by simp
      then show ?thesis by blast
    qed
  next
    assume "\<exists>p r. d # s = p @ q @ r"
    then obtain p r where pr: "d # s = p @ q @ r" by auto
    show "js_includes (d # s) q"
    proof (cases p)
      case Nil
      with pr have "starts_with (d # s) q" by (auto simp: starts_with_iff)
      then show ?thesis by simp
    next
      case (Cons a p')
      with pr have "s = p' @ q @ r" by simp
      then have "js_includes s q" using Cons.IH by blast
      then show ?thesis by simp
    qed
  qed
qed

lemma applyFilters_eq:
  "applyFilters B items pg =
     (filter (\<lambda>e. (status_filter pg = ''all'' \<or> fresh_status e = status_filter pg) \<and>
                   (toLowerCase B (trim B (search pg)) = [] \<or>
                    js_includes (toLowerCase B (employee_id e))
                      (toLowerCase B (trim B (search pg))))) items, pg)"
  by (simp add: applyFilters_def Let_def or_empty_id)

lemma show_int_0: "show_int (Math_round (or_zero None)) = ''0''"
  by (simp add: show_int_def Math_round_def or_zero_def show_nat.simps [of 0])

lemma renderList_not_error: "employees (renderList B items pg) \<noteq> [error_notice]"
  by (cases items) (simp_all add: renderList_eq empty_notice_def error_notice_def employee_card_def)

subsection \<open>The list dashboard on any parsed body\<close>

lemma fetchEmployees_request: "fst (fetchEmployees outcome) = fetch_get ''/api/online/employees''"
  by (simp add: fetchEmployees_def Let_def split: sum.splits)










lemma render_cards_frame:
  "status_filter (snd (render_cards B items pg)) = status_filter pg \<and>
   search (snd (render_cards B items pg)) = search pg \<and>
   console (snd (render_cards B items pg)) = console pg \<and>
   listeners (snd (render_cards B items pg)) = listeners pg \<and>
   timers (snd (render_cards B items pg)) = timers pg"
  by (induction items arbitrary: pg) (auto split: sum.splits)



lemma renderList_any_eq:
  "renderList_any B items pg =
     (if items = [] then (Inr (), pg\<lparr>employees := [empty_notice]\<rparr>)
      else render_cards B items (pg\<lparr>employees := []\<rparr>))"
  by (simp add: renderList_any_def Let_def)

lemma renderList_any_frame:
  "status_filter (snd (renderList_any B items pg)) = status_filter pg \<and>
   search (snd (renderList_any B items pg)) = search pg \<and>
   console (snd (renderList_any B items pg)) = console pg \<and>
   listeners (snd (renderList_any B items pg)) = listeners pg \<and>
   timers (snd (renderList_any B items pg)) = timers pg"
  by (simp add: renderList_any_eq render_cards_frame)



text \<open>\<open>refresh\<close> by the three places where its \<open>try\<close> block may fail.\<close>

lemma refresh_request: "fst (refresh B outcome pg) = fetch_get ''/api/online/employees''"
  by (simp add: refresh_def fetchEmployees_def Let_def split: sum.splits prod.splits)

lemma refresh_fetch_failed:
  "snd (fetchEmployees outcome) = Inl e \<Longrightarrow> snd (refresh B outcome pg) = refresh_catch e pg"
  by (simp add: refresh_def split_beta)

lemma refresh_filter_failed:
  "snd (fetchEmployees outcome) = Inr data \<Longrightarrow> applyFilters_any B data pg = Inl e
     \<Longrightarrow> snd (refresh B outcome pg) = refresh_catch e pg"
  by (simp add: refresh_def split_beta)

lemma refresh_render_failed:
  "snd (fetchEmployees outcome) = Inr data \<Longrightarrow> applyFilters_any B data pg = Inr shown
     \<Longrightarrow> fst (renderList_any B shown pg) = Inl e
     \<Longrightarrow> snd (refresh B outcome pg) = refresh_catch e (snd (renderList_any B shown pg))"
  by (simp add: refresh_def split_beta split: prod.splits sum.splits)

lemma refresh_rendered:
  "snd (fetchEmployees outcome) = Inr data \<Longrightarrow> applyFilters_any B data pg = Inr shown
     \<Longrightarrow> fst (renderList_any B shown pg) = Inr u
     \<Longrightarrow> snd (refresh B outcome pg) = snd (renderList_any B shown pg)"
  by (simp add: refresh_def split_beta split: prod.splits sum.splits)

lemma refresh_timers: "timers (snd (refresh B outcome pg)) = timers pg"
proof (cases "snd (fetchEmployees outcome)")
  case (Inl e)
  then show ?thesis by (simp add: refresh_fetch_failed refresh_catch_def)
next
  case data: (Inr data)
  show ?thesis
  proof (cases "applyFilters_any B data pg")
    case (Inl e)
    with data show ?thesis by (simp add: refresh_filter_failed refresh_catch_def)
  next
    case shown: (Inr shown)
    show ?thesis
    proof (cases "fst (renderList_any B shown pg)")
      case (Inl e)
      with data shown show ?thesis
        by (simp add: refresh_render_failed refresh_catch_def renderList_any_frame)
    next
      case (Inr u)
      with data shown show ?thesis
        by (simp add: refresh_rendered renderList_any_frame)
    qed
  qed
qed


text \<open>
  On a roster whose entries are well formed the two functions do what \<open>applyFilters\<close>
  and \<open>renderList\<close> above do.
\<close>

lemma own_field_entry_json:
  "own_field (entry_json e) ''employee_id'' = Some (JStr (employee_id e)) \<and>
   own_field (entry_json e) ''fresh_status'' = Some (JStr (fresh_status e)) \<and>
   own_field (entry_json e) ''last_ts'' = Some (JNum (last_ts e)) \<and>
   own_field (entry_json e) ''last_lat'' = Some (JNum (last_lat e)) \<and>
   own_field (entry_json e) ''last_lon'' = Some (JNum (last_lon e)) \<and>
   own_field (entry_json e) ''last_accuracy'' = map_option JNum (last_accuracy e)"
  by (cases "last_accuracy e") (simp_all add: own_field_def entry_json_def)

lemma entry_json_not_null: "entry_json e \<noteq> JNull"
  by (simp add: entry_json_def)

lemma keep_entry_entry_json:
  "keep_entry B status q (entry_json e) =
     Inr ((status = ''all'' \<or> fresh_status e = status) \<and>
          (q = [] \<or> js_includes (toLowerCase B (employee_id e)) q))"
  by (simp add: keep_entry_def get_field_def entry_json_not_null own_field_entry_json)

lemma filter_any_total:
  "(\<And>e. f (g e) = Inr (P e)) \<Longrightarrow> filter_any f (map g items) = Inr (map g (filter P items))"
  by (induction items) simp_all

lemma applyFilters_any_roster:
  "applyFilters_any B (JArr (map entry_json items)) pg
     = Inr (map entry_json (fst (applyFilters B items pg)))"
  by (simp add: applyFilters_any_def applyFilters_eq or_empty_id
      filter_any_total [where f = "keep_entry B (status_filter pg) (toLowerCase B (trim B (search pg)))"
        and g = entry_json, OF keep_entry_entry_json])

lemma rounded_text_entry_json:
  "rounded_text B (map_option JNum a) = show_int (Math_round (or_zero a))"
  by (cases a) (simp_all add: rounded_text_def ToNumber_def or_zero_def)

lemma employee_card_any_entry_json:
  "employee_card_any B (entry_json e) = Inr (employee_card B e)"
  by (simp add: employee_card_any_def employee_card_def meta_text_def get_field_def
      entry_json_not_null own_field_entry_json toFixed_any_def textContent_of_def
      time_text_def ToNumber_def ToString_def rounded_text_entry_json)

lemma render_cards_roster:
  "render_cards B (map entry_json items) pg
     = (Inr (), pg\<lparr>employees := employees pg @ map (employee_card B) items\<rparr>)"
  by (induction items arbitrary: pg) (simp_all add: employee_card_any_entry_json)

lemma renderList_any_roster:
  "renderList_any B (map entry_json items) pg = (Inr (), renderList B items pg)"
  by (simp add: renderList_any_eq renderList_eq render_cards_roster)

lemma refresh_roster:
  "refresh B (Inr \<lparr>resp_ok = True, resp_json = Inr (JArr (map entry_json items))\<rparr>) pg
     = (fetch_get ''/api/online/employees'', renderList B (fst (applyFilters B items pg)) pg)"
  by (simp add: refresh_def fetchEmployees_def applyFilters_any_roster renderList_any_roster)

subsection \<open>The map dashboard\<close>

lemma foldl_append_list_items:
  "foldl (\<lambda>pg e. pg\<lparr>list_items := list_items pg @ [f e]\<rparr>) pg items
     = pg\<lparr>list_items := list_items pg @ map f items\<rparr>"
  by (induction items arbitrary: pg) simp_all

lemma loadEmployees_request: "fst (loadEmployees outcome pg) = fetch_get ''/api/online/employees''"
  by (simp add: loadEmployees_def Let_def split: sum.splits)

text \<open>\<open>loadEmployees\<close> writes the list and nothing else.\<close>

lemma loadEmployees_frame:
  "objects (snd (snd (loadEmployees outcome pg))) = objects pg \<and>
   on_map (snd (snd (loadEmployees outcome pg))) = on_map pg \<and>
   view (snd (snd (loadEmployees outcome pg))) = view pg \<and>
   polyline (snd (snd (loadEmployees outcome pg))) = polyline pg \<and>
   markers (snd (snd (loadEmployees outcome pg))) = markers pg \<and>
   intervals (snd (snd (loadEmployees outcome pg))) = intervals pg"
  by (simp add: loadEmployees_def Let_def foldl_append_list_items split: sum.splits)

lemma window_onload_page:
  "objects (snd (window_onload outcome))
     = [TileLayer ''https://{s}.tile.openstreetmap.org/{z}/{x}/{y}.png'' 19] \<and>
   on_map (snd (window_onload outcome)) = [0] \<and>
   polyline (snd (window_onload outcome)) = None \<and>
   markers (snd (window_onload outcome)) = Map.empty \<and>
   intervals (snd (window_onload outcome)) = [(CbLoadEmployees, 10000)]"
  by (simp add: window_onload_def add_new_layer_def Let_def split_beta loadEmployees_frame)

lemma removeAll_as_filter: "removeAll a xs = filter (\<lambda>x. x \<noteq> a) xs"
  by (induction xs) auto

text \<open>The page once the old track of \<open>emp\<close> is removed from the map.\<close>

lemma remove_old_polyline:
  "(case polyline pg of Some l \<Rightarrow> removeLayer l pg | None \<Rightarrow> pg)
     = pg\<lparr>on_map := filter (\<lambda>x. Some x \<noteq> polyline pg) (on_map pg)\<rparr>"
  by (cases "polyline pg") (simp_all add: removeLayer_def removeAll_as_filter)

lemma markers_lookup_on_map [simp]: "markers_lookup (pg\<lparr>on_map := xs\<rparr>) k = markers_lookup pg k"
  by (simp add: markers_lookup_def)

text \<open>
  What \<open>showTrack\<close> does to the page once the response is parsed: with no point, with
  the identity \<open>__proto__\<close>, and with any other identity.
\<close>

lemma showTrack_parsed:
  assumes "outcome = Inr res" and "resp_json res = Inr data"
  shows "snd (snd (showTrack emp today outcome pg)) =
     (if points data = []
      then pg\<lparr>on_map := filter (\<lambda>x. Some x \<noteq> polyline pg \<and> Some x \<noteq> markers pg emp) (on_map pg)\<rparr>
      else if markers_lookup pg emp = ObjectPrototype
      then (if \<not> list_ex is_polyline (objects pg)
            then pg\<lparr>on_map := filter (\<lambda>x. Some x \<noteq> polyline pg \<and> Some x \<noteq> markers pg emp)
                                (on_map pg)\<rparr>
            else pg\<lparr>objects := objects pg @
                       [Polyline (map (\<lambda>p. (lat p, lon p)) (points data)) ''blue'',
                        Marker (lat (last (points data)), lon (last (points data))) emp],
                     on_map := filter (\<lambda>x. Some x \<noteq> polyline pg \<and> Some x \<noteq> markers pg emp)
                                 (on_map pg) @ [length (objects pg)],
                     view := FitBounds (map (\<lambda>p. (lat p, lon p)) (points data)),
                     polyline := Some (length (objects pg))\<rparr>)
      else pg\<lparr>objects := objects pg @
                 [Polyline (map (\<lambda>p. (lat p, lon p)) (points data)) ''blue'',
                  Marker (lat (last (points data)), lon (last (points data))) emp],
               on_map := filter (\<lambda>x. Some x \<noteq> polyline pg \<and> Some x \<noteq> markers pg emp) (on_map pg)
                 @ [length (objects pg), Suc (length (objects pg))],
               view := FitBounds (map (\<lambda>p. (lat p, lon p)) (points data)),
               polyline := Some (length (objects pg)),
               markers := (markers pg)(emp \<mapsto> Suc (length (objects pg)))\<rparr>)"
proof (cases "markers pg emp")
  case None
  with assms show ?thesis
    by (simp add: showTrack_def Let_def remove_old_polyline markers_lookup_def add_new_layer_def
        last_conv_nth)
next
  case (Some m)
  with assms show ?thesis
    by (simp add: showTrack_def Let_def remove_old_polyline markers_lookup_def add_new_layer_def
        removeLayer_def removeAll_as_filter last_conv_nth)
qed

lemma showTrack_failed:
  "outcome = Inl e \<or> (outcome = Inr res \<and> resp_json res = Inl e)
     \<Longrightarrow> showTrack emp today outcome pg =
         (fetch_get (''/api/online/track?employee_id='' @ emp @ ''&date='' @ today), Inl e, pg)"
  by (auto simp: showTrack_def Let_def)

text \<open>How \<open>showTrack\<close> completes once the response is parsed.\<close>

lemma showTrack_completes:
  assumes "outcome = Inr res" and "resp_json res = Inr data"
  shows "fst (snd (showTrack emp today outcome pg)) =
     (if points data \<noteq> [] \<and> markers_lookup pg emp = ObjectPrototype
         \<and> \<not> list_ex is_polyline (objects pg)
      then Inl TypeError else Inr ())"
  using assms
  by (cases "markers pg emp")
     (simp_all add: showTrack_def Let_def remove_old_polyline markers_lookup_def split_beta)

lemma showTrack_request:
  "fst (showTrack emp today outcome pg)
     = fetch_get (''/api/online/track?employee_id='' @ emp @ ''&date='' @ today)"
  by (simp add: showTrack_def Let_def split_beta split: sum.splits)

text \<open>The invariant holds after \<open>window.onload\<close> and every \<open>showTrack\<close> keeps it.\<close>

lemma wf_page_onload: "wf_page (snd (window_onload outcome))"
  by (simp add: wf_page_def window_onload_page)

lemma wf_page_loadEmployees: "wf_page pg \<Longrightarrow> wf_page (snd (snd (loadEmployees outcome pg)))"
  by (simp add: wf_page_def loadEmployees_frame)

lemma wf_page_showTrack:
  assumes "wf_page pg"
  shows "wf_page (snd (snd (showTrack emp today outcome pg)))"
proof (cases outcome)
  case (Inl e)
  then show ?thesis using assms by (simp add: showTrack_failed)
next
  case (Inr res)
  show ?thesis
  proof (cases "resp_json res")
    case (Inl e)
    with Inr show ?thesis using assms by (simp add: showTrack_failed)
  next
    case (Inr data)
    show ?thesis
      unfolding showTrack_parsed [OF \<open>outcome = Inr res\<close> Inr]
      using assms
      by (auto simp: wf_page_def nth_append less_Suc_eq split: if_splits)
  qed
qed

text \<open>
  With an identity other than \<open>__proto__\<close> and a response of at least one point,
  \<open>showTrack\<close> draws the polyline through the returned points, in their order, and
  the marker at the last of them.
\<close>

lemma showTrack_draws_unless_proto:
  assumes "outcome = Inr res" and "resp_json res = Inr data" and "points data \<noteq> []"
    and "emp \<noteq> ''__proto__''"
  shows "objects (snd (snd (showTrack emp today outcome pg)))
           = objects pg @
               [Polyline (map (\<lambda>p. (lat p, lon p)) (points data)) ''blue'',
                Marker (lat (last (points data)), lon (last (points data))) emp] \<and>
         polyline (snd (snd (showTrack emp today outcome pg))) = Some (length (objects pg)) \<and>
         markers (snd (snd (showTrack emp today outcome pg))) emp
           = Some (Suc (length (objects pg))) \<and>
         on_map (snd (snd (showTrack emp today outcome pg)))
           = filter (\<lambda>x. Some x \<noteq> polyline pg \<and> Some x \<noteq> markers pg emp) (on_map pg)
               @ [length (objects pg), Suc (length (objects pg))]"
proof -
  from assms(4) have "markers_lookup pg emp \<noteq> ObjectPrototype"
    by (simp add: markers_lookup_def split: option.splits)
  with assms(3) show ?thesis
    by (simp add: showTrack_parsed [OF assms(1) assms(2)])
qed

section \<open>Properties of the scripts against their specification\<close>

text \<open>
  C1.  Over every sequence of firings of the geolocation success callback, whatever the
  clock readings, two consecutive submissions are at least 10000 ms apart; and a
  firing less than 10000 ms after the recorded send time submits nothing and leaves
  the state as it was.
\<close>

theorem throttle_one_per_10s:
  "spaced 10000 (map fst (run_positions num evs st)) \<and>
   (now - lastSent s < 10000 \<longrightarrow> on_position num outcome now pos s = (s, []))"
  by (simp add: run_positions_spaced on_position_cases)

theorem throttle_one_per_10s_witness:
  "spaced 10000 (map fst (run_positions (\<lambda>x. ''n'')
       [(1700000000000, \<lparr>coords = None\<rparr>, Inl NetworkError),
        (1700000004000, \<lparr>coords = None\<rparr>, Inl NetworkError),
        (1700000010000, \<lparr>coords = None\<rparr>, Inl NetworkError)] geo_init)) \<and>
   map fst (run_positions (\<lambda>x. ''n'')
       [(1700000000000, \<lparr>coords = None\<rparr>, Inl NetworkError :: unit fetched),
        (1700000004000, \<lparr>coords = None\<rparr>, Inl NetworkError),
        (1700000010000, \<lparr>coords = None\<rparr>, Inl NetworkError)] geo_init)
     = [1700000000000, 1700000010000] \<and>
   on_position (\<lambda>x. ''n'') (Inl NetworkError :: unit fetched) 1700000004000 \<lparr>coords = None\<rparr>
       \<lparr>watchId = Some 1, lastSent = 1700000000000\<rparr>
     = (\<lparr>watchId = Some 1, lastSent = 1700000000000\<rparr>, [])"
  using throttle_one_per_10s [where num = "\<lambda>x. ''n''" and evs =
      "[(1700000000000, \<lparr>coords = None\<rparr>, Inl NetworkError :: unit fetched),
        (1700000004000, \<lparr>coords = None\<rparr>, Inl NetworkError),
        (1700000010000, \<lparr>coords = None\<rparr>, Inl NetworkError)]" and st = geo_init
      and now = 1700000004000 and s = "\<lparr>watchId = Some 1, lastSent = 1700000000000\<rparr>"
      and outcome = "Inl NetworkError :: unit fetched" and pos = "\<lparr>coords = None\<rparr>"]
  by (simp add: geo_init_def on_position_cases)

text \<open>
  C2.  The request of \<open>send\<close> is a POST to \<open>/api/geo/ping\<close> whose body has the fields
  \<open>lat\<close>, \<open>lon\<close> and, when \<open>acc\<close> is a number, \<open>acc\<close>, in this order and no other;
  in particular no \<open>ts\<close> and no \<open>timestamp\<close> field.
\<close>

theorem send_body_has_no_timestamp:
  "req_method (fst (send num outcome la lo acc)) = POST \<and>
   req_url (fst (send num outcome la lo acc)) = ''/api/geo/ping'' \<and>
   map fst (req_body (fst (send num outcome la lo acc)))
     = (if typeof acc = ''number'' then [''lat'', ''lon'', ''acc''] else [''lat'', ''lon'']) \<and>
   ''ts'' \<notin> fst ` set (req_body (fst (send num outcome la lo acc))) \<and>
   ''timestamp'' \<notin> fst ` set (req_body (fst (send num outcome la lo acc)))"
proof -
  have keys: "fst ` set (req_body (fst (send num outcome la lo acc)))
      = set (map fst (send_form num la lo acc))"
    by (simp add: send_request)
  show ?thesis
    unfolding keys by (simp add: send_request send_form_keys)
qed

text \<open>
  C3.  With the age \<open>now - last_timestamp\<close>: \<open>classify\<close> is \<open>Fresh\<close> exactly when the
  age is at most \<open>T_fresh\<close>, \<open>Stale\<close> exactly when it is above \<open>T_fresh\<close> and at most
  \<open>T_offline\<close>, and, the thresholds being ordered (\<open>T_fresh \<le> T_offline\<close>, without
  which the three cases of the specification overlap), \<open>Offline\<close> exactly when it is
  above \<open>T_offline\<close>; and a greater age never gives an earlier status.
\<close>

theorem classify_cases_and_monotone:
  "(classify T_fresh T_offline now t = Fresh \<longleftrightarrow> now - t \<le> T_fresh) \<and>
   (classify T_fresh T_offline now t = Stale \<longleftrightarrow> T_fresh < now - t \<and> now - t \<le> T_offline) \<and>
   (T_fresh \<le> T_offline \<longrightarrow>
      (classify T_fresh T_offline now t = Offline \<longleftrightarrow> now - t > T_offline)) \<and>
   (now1 - t1 \<le> now2 - t2 \<longrightarrow>
      status_rank (classify T_fresh T_offline now1 t1)
        \<le> status_rank (classify T_fresh T_offline now2 t2))"
  by (simp add: classify_def)

theorem classify_cases_and_monotone_witness:
  "classify 30 120 1000 999 = Fresh \<and> classify 30 120 1000 940 = Stale \<and>
   classify 30 120 4600 1000 = Offline \<and> (30::int) \<le> 120 \<and>
   (1000 - 999 :: int) \<le> 4600 - 1000 \<and>
   status_rank (classify 30 120 1000 999) \<le> status_rank (classify 30 120 4600 1000)"
  using classify_cases_and_monotone [of 30 120 1000 999 1000 999 4600 1000]
    classify_cases_and_monotone [of 30 120 1000 940]
    classify_cases_and_monotone [of 30 120 4600 1000]
  by simp

text \<open>
  C4.  \<open>send\<close> completes normally whatever \<open>fetch\<close> yields, a rejection included; the
  geolocation error callback changes nothing and submits nothing; and \<open>startWatch\<close>
  returns normally with the state as it was, so with no watch registered, when
  \<open>navigator.geolocation\<close> is missing.
\<close>

theorem reporting_path_is_silent:
  "snd (send num outcome la lo acc) = Inr () \<and>
   on_error err st = (st, []) \<and>
   startWatch None st = Inr st"
  by (simp add: send_def on_error_def startWatch_def split: sum.splits)

text \<open>
  C5.  The track of the identity \<open>__proto__\<close> is not drawn.  On the page as
  \<open>window.onload\<close> leaves it, \<open>showTrack\<close> with this identity and a response of one
  point ends with a \<open>TypeError\<close>: neither the polyline nor the marker is put on the
  map, which keeps the tile layer alone, and \<open>markers\<close> gets no entry.  (For every
  other identity the polyline and the marker are drawn, through the returned points
  in their order and at the last of them: \<open>showTrack_draws_unless_proto\<close>.)
\<close>

theorem showTrack_proto_identity:
  "showTrack ''__proto__'' ''2026-01-15''
       (Inr \<lparr>resp_ok = True, resp_json = Inr \<lparr>points = [\<lparr>lat = 55.75, lon = 37.61\<rparr>]\<rparr>\<rparr>)
       (snd (window_onload (Inl NetworkError)))
     = (fetch_get ''/api/online/track?employee_id=__proto__&date=2026-01-15'', Inl TypeError,
        snd (window_onload (Inl NetworkError))) \<and>
   objects (snd (window_onload (Inl NetworkError)))
     = [TileLayer ''https://{s}.tile.openstreetmap.org/{z}/{x}/{y}.png'' 19] \<and>
   on_map (snd (window_onload (Inl NetworkError))) = [0] \<and>
   markers (snd (window_onload (Inl NetworkError))) ''__proto__'' = None"
proof -
  define pg where "pg = snd (window_onload (Inl NetworkError))"
  let ?data = "\<lparr>points = [\<lparr>lat = 55.75, lon = 37.61\<rparr>]\<rparr>"
  let ?res = "\<lparr>resp_ok = True, resp_json = Inr ?data\<rparr>"
  have h1: "(Inr ?res :: track fetched) = Inr ?res" by simp
  have h2: "resp_json ?res = Inr ?data" by simp
  have pg: "objects pg = [TileLayer ''https://{s}.tile.openstreetmap.org/{z}/{x}/{y}.png'' 19]"
      "on_map pg = [0]" "polyline pg = None" "markers pg ''__proto__'' = None"
    unfolding pg_def by (simp_all add: window_onload_page)
  have lookup: "markers_lookup pg ''__proto__'' = ObjectPrototype"
    by (simp add: markers_lookup_def pg)
  have "snd (snd (showTrack ''__proto__'' ''2026-01-15'' (Inr ?res) pg)) = pg"
    using showTrack_parsed [OF h1 h2, of "''__proto__''" "''2026-01-15''" pg]
    by (simp add: lookup pg(1,3,4))
  moreover have "fst (snd (showTrack ''__proto__'' ''2026-01-15'' (Inr ?res) pg)) = Inl TypeError"
    using showTrack_completes [OF h1 h2, of "''__proto__''" "''2026-01-15''" pg]
    by (simp add: lookup pg(1))
  moreover have "fst (showTrack ''__proto__'' ''2026-01-15'' (Inr ?res) pg)
      = fetch_get ''/api/online/track?employee_id=__proto__&date=2026-01-15''"
    by (simp add: showTrack_request)
  ultimately have "showTrack ''__proto__'' ''2026-01-15'' (Inr ?res) pg
      = (fetch_get ''/api/online/track?employee_id=__proto__&date=2026-01-15'', Inl TypeError, pg)"
    by (simp add: prod_eq_iff)
  with pg show ?thesis unfolding pg_def by simp
qed

text \<open>
  C6.  \<open>applyFilters\<close> returns, in their order, exactly the entries whose
  \<open>fresh_status\<close> is the selected status (every status when the selection is
  \<open>all\<close>) and whose \<open>employee_id\<close>, in lower case, contains the trimmed search text
  in lower case (every entry when that text is empty); the page it reads is
  returned as it was.
\<close>

theorem applyFilters_selects:
  "fst (applyFilters B items pg) =
     filter (\<lambda>e. (status_filter pg = ''all'' \<or> fresh_status e = status_filter pg) \<and>
                 (toLowerCase B (trim B (search pg)) = [] \<or>
                  (\<exists>p r. toLowerCase B (employee_id e)
                           = p @ toLowerCase B (trim B (search pg)) @ r))) items \<and>
   snd (applyFilters B items pg) = pg"
  by (simp add: applyFilters_eq js_includes_iff)

text \<open>
  The search text is trimmed before it is compared: a search text of one blank is not
  empty and occurs in no identity without a blank, yet every entry is returned.
\<close>

theorem applyFilters_blank_search_counterexample:
  "fst (applyFilters ascii_builtins
         [\<lparr>employee_id = ''ivanov'', fresh_status = ''fresh'', last_ts = 1700000000,
           last_lat = 55.75, last_lon = 37.61, last_accuracy = None\<rparr>]
         \<lparr>status_filter = ''all'', search = '' '', employees = [], console = [],
          listeners = [], timers = []\<rparr>)
     \<noteq> filter_as_specified ascii_builtins
         [\<lparr>employee_id = ''ivanov'', fresh_status = ''fresh'', last_ts = 1700000000,
           last_lat = 55.75, last_lon = 37.61, last_accuracy = None\<rparr>]
         \<lparr>status_filter = ''all'', search = '' '', employees = [], console = [],
          listeners = [], timers = []\<rparr>"
  by (simp add: applyFilters_eq filter_as_specified_def ascii_builtins_def ascii_trim_def
      is_blank_def ascii_lower_def)

text \<open>
  C7.  When \<open>acc\<close> is not a number, the body of the request of \<open>send\<close> has the fields
  \<open>lat\<close> and \<open>lon\<close> only; and \<open>renderList\<close> shows an entry without \<open>last_accuracy\<close>
  with an accuracy of 0 meters.
\<close>

theorem missing_accuracy:
  "(typeof acc \<noteq> ''number'' \<longrightarrow>
      map fst (req_body (fst (send num outcome la lo acc))) = [''lat'', ''lon'']) \<and>
   (e \<in> set items \<and> last_accuracy e = None \<longrightarrow>
      Element ''div'' [(''class'', ''emp '' @ fresh_status e)]
        [Element ''div'' [(''class'', ''fio'')] [TextNode (employee_id e)],
         Element ''div'' [(''class'', ''meta'')]
           [TextNode (''Poslednyaya tochka: '' @ toLocaleTimeString B (last_ts e * 1000)
              @ '' | '' @ toFixed B (last_lat e) 5 @ '', '' @ toFixed B (last_lon e) 5
              @ '' | +-0m'')],
         Element ''div'' [(''class'', ''actions'')]
           [Element ''a'' [(''href'', ''/online''), (''target'', ''_blank'')]
              [TextNode ''Otkryt kartu'']]]
        \<in> set (employees (renderList B items pg)))"
proof -
  have card0: "last_accuracy e = None \<Longrightarrow> employee_card B e =
      Element ''div'' [(''class'', ''emp '' @ fresh_status e)]
        [Element ''div'' [(''class'', ''fio'')] [TextNode (employee_id e)],
         Element ''div'' [(''class'', ''meta'')]
           [TextNode (''Poslednyaya tochka: '' @ toLocaleTimeString B (last_ts e * 1000)
              @ '' | '' @ toFixed B (last_lat e) 5 @ '', '' @ toFixed B (last_lon e) 5
              @ '' | +-0m'')],
         Element ''div'' [(''class'', ''actions'')]
           [Element ''a'' [(''href'', ''/online''), (''target'', ''_blank'')]
              [TextNode ''Otkryt kartu'']]]"
    by (simp add: employee_card_def meta_text_def show_int_0)
  have shown: "e \<in> set items \<Longrightarrow> employee_card B e \<in> set (employees (renderList B items pg))"
    by (auto simp: renderList_eq)
  have form: "typeof acc \<noteq> ''number'' \<Longrightarrow>
      map fst (req_body (fst (send num outcome la lo acc))) = [''lat'', ''lon'']"
    by (simp add: send_request send_form_keys)
  from card0 shown form show ?thesis by metis
qed

theorem missing_accuracy_witness:
  "map fst (req_body (fst (send (\<lambda>x. ''n'') (Inl NetworkError :: unit fetched)
       (JSNumber 55.75) (JSNumber 37.61) JSUndefined))) = [''lat'', ''lon''] \<and>
   employees (renderList ascii_builtins
       [\<lparr>employee_id = ''ivanov'', fresh_status = ''fresh'', last_ts = 1700000000,
         last_lat = 55.75, last_lon = 37.61, last_accuracy = None\<rparr>]
       \<lparr>status_filter = ''all'', search = '''', employees = [], console = [],
        listeners = [], timers = []\<rparr>)
     = [Element ''div'' [(''class'', ''emp fresh'')]
          [Element ''div'' [(''class'', ''fio'')] [TextNode ''ivanov''],
           Element ''div'' [(''class'', ''meta'')]
             [TextNode ''Poslednyaya tochka: hh:mm:ss | #, # | +-0m''],
           Element ''div'' [(''class'', ''actions'')]
             [Element ''a'' [(''href'', ''/online''), (''target'', ''_blank'')]
                [TextNode ''Otkryt kartu'']]]]"
  using missing_accuracy [where acc = JSUndefined and num = "\<lambda>x. ''n''"
      and outcome = "Inl NetworkError :: unit fetched" and la = "JSNumber 55.75"
      and lo = "JSNumber 37.61" and B = ascii_builtins
      and e = "\<lparr>employee_id = ''ivanov'', fresh_status = ''fresh'', last_ts = 1700000000,
         last_lat = 55.75, last_lon = 37.61, last_accuracy = None\<rparr>"
      and items = "[\<lparr>employee_id = ''ivanov'', fresh_status = ''fresh'', last_ts = 1700000000,
         last_lat = 55.75, last_lon = 37.61, last_accuracy = None\<rparr>]"
      and pg = "\<lparr>status_filter = ''all'', search = '''', employees = [], console = [],
        listeners = [], timers = []\<rparr>"]
  by (simp add: renderList_eq ascii_builtins_def)

text \<open>
  C8.  The list dashboard registers \<open>refresh\<close> with an interval of 15000 ms and the map
  dashboard registers \<open>loadEmployees\<close> with an interval of 10000 ms, both within the
  recommended 10 to 15 seconds; and the one request either of the two polled functions
  makes is a GET of \<open>/api/online/employees\<close> without a body.
\<close>

theorem dashboards_poll_with_get:
  "timers (snd (dom_content_loaded B outcome pg)) = timers pg @ [(CbRefresh, 15000)] \<and>
   intervals (snd (window_onload outcome')) = [(CbLoadEmployees, 10000)] \<and>
   recommended_poll 15000 \<and> recommended_poll 10000 \<and>
   fst (refresh B outcome pg) = fetch_get ''/api/online/employees'' \<and>
   fst (loadEmployees outcome' mp) = fetch_get ''/api/online/employees'' \<and>
   req_method (fetch_get ''/api/online/employees'') = GET \<and>
   req_body (fetch_get ''/api/online/employees'') = []"
proof -
  have "timers (snd (dom_content_loaded B outcome pg)) = timers pg @ [(CbRefresh, 15000)]"
    by (simp add: dom_content_loaded_def Let_def split_beta refresh_timers)
  moreover have "fst (refresh B outcome pg) = fetch_get ''/api/online/employees''"
    by (rule refresh_request)
  ultimately show ?thesis
    by (simp add: window_onload_page loadEmployees_request recommended_poll_def fetch_get_def)
qed




text \<open>
  C10.  On a page that satisfies the invariant, once the response is parsed and
  whatever its points, the polyline drawn before and the marker of the selected
  identity drawn before are off the map.  When the response has no point, this is
  all that happens: no layer is created and the rest of the page stays as it was.
  The marker of any other identity stays where it is: same entry in \<open>markers\<close>, same
  layer object, on the map exactly if it was.
\<close>

theorem showTrack_clears_old_track:
  assumes "wf_page pg" and "outcome = Inr res" and "resp_json res = Inr data"
  shows "(polyline pg = Some l \<longrightarrow> l \<notin> set (on_map (snd (snd (showTrack emp today outcome pg))))) \<and>
         (markers pg emp = Some m \<longrightarrow> m \<notin> set (on_map (snd (snd (showTrack emp today outcome pg))))) \<and>
         (points data = [] \<longrightarrow>
            snd (snd (showTrack emp today outcome pg))
              = pg\<lparr>on_map := filter (\<lambda>x. Some x \<noteq> polyline pg \<and> Some x \<noteq> markers pg emp)
                                (on_map pg)\<rparr>) \<and>
         (other \<noteq> emp \<and> markers pg other = Some k \<longrightarrow>
            markers (snd (snd (showTrack emp today outcome pg))) other = Some k \<and>
            objects (snd (snd (showTrack emp today outcome pg))) ! k = objects pg ! k \<and>
            (k \<in> set (on_map (snd (snd (showTrack emp today outcome pg)))) \<longleftrightarrow> k \<in> set (on_map pg)))"
proof -
  note parsed = showTrack_parsed [OF assms(2) assms(3), of emp today pg]
  have old_l: "polyline pg = Some l \<Longrightarrow> l < length (objects pg)"
    using assms(1) by (simp add: wf_page_def)
  have old_m: "markers pg emp = Some m \<Longrightarrow> m < length (objects pg)"
    using assms(1) by (simp add: wf_page_def)
  have c1: "polyline pg = Some l \<Longrightarrow> l \<notin> set (on_map (snd (snd (showTrack emp today outcome pg))))"
    using old_l by (auto simp: parsed)
  have c2: "markers pg emp = Some m \<Longrightarrow> m \<notin> set (on_map (snd (snd (showTrack emp today outcome pg))))"
    using old_m by (auto simp: parsed)
  have c3: "points data = [] \<Longrightarrow> snd (snd (showTrack emp today outcome pg))
      = pg\<lparr>on_map := filter (\<lambda>x. Some x \<noteq> polyline pg \<and> Some x \<noteq> markers pg emp) (on_map pg)\<rparr>"
    by (simp add: parsed)
  have c4: "markers (snd (snd (showTrack emp today outcome pg))) other = Some k \<and>
      objects (snd (snd (showTrack emp today outcome pg))) ! k = objects pg ! k \<and>
      (k \<in> set (on_map (snd (snd (showTrack emp today outcome pg)))) \<longleftrightarrow> k \<in> set (on_map pg))"
    if ne: "other \<noteq> emp" and mk: "markers pg other = Some k"
  proof -
    from assms(1) mk
    have k: "k < length (objects pg)" "marker_popup (objects pg ! k) = Some other"
      by (auto simp: wf_page_def)
    have "polyline pg \<noteq> Some k"
    proof
      assume "polyline pg = Some k"
      with assms(1) have "is_polyline (objects pg ! k)" by (simp add: wf_page_def)
      with k(2) show False by (cases "objects pg ! k") simp_all
    qed
    moreover have "markers pg emp \<noteq> Some k"
    proof
      assume "markers pg emp = Some k"
      with assms(1) have "marker_popup (objects pg ! k) = Some emp" by (simp add: wf_page_def)
      with k(2) ne show False by simp
    qed
    ultimately show ?thesis
      using ne mk k by (auto simp: parsed nth_append)
  qed
  from c1 c2 c3 c4 show ?thesis by blast
qed

theorem showTrack_clears_old_track_witness:
  "on_map (snd (snd (showTrack ''E2'' ''2026-01-15''
    (Inr \<lparr>resp_ok = True, resp_json = Inr \<lparr>points = []\<rparr>\<rparr>)
    (snd (snd (showTrack ''E2'' ''2026-01-15''
        (Inr \<lparr>resp_ok = True, resp_json = Inr \<lparr>points = [\<lparr>lat = 55.70, lon = 37.70\<rparr>]\<rparr>\<rparr>)
        (snd (snd (showTrack ''E1'' ''2026-01-15''
            (Inr \<lparr>resp_ok = True, resp_json = Inr \<lparr>points = [\<lparr>lat = 55.75, lon = 37.61\<rparr>]\<rparr>\<rparr>)
            (snd (window_onload (Inl NetworkError)))))))))))) = [0, 2] \<and>
   markers (snd (snd (showTrack ''E2'' ''2026-01-15''
    (Inr \<lparr>resp_ok = True, resp_json = Inr \<lparr>points = []\<rparr>\<rparr>)
    (snd (snd (showTrack ''E2'' ''2026-01-15''
        (Inr \<lparr>resp_ok = True, resp_json = Inr \<lparr>points = [\<lparr>lat = 55.70, lon = 37.70\<rparr>]\<rparr>\<rparr>)
        (snd (snd (showTrack ''E1'' ''2026-01-15''
            (Inr \<lparr>resp_ok = True, resp_json = Inr \<lparr>points = [\<lparr>lat = 55.75, lon = 37.61\<rparr>]\<rparr>\<rparr>)
            (snd (window_onload (Inl NetworkError)))))))))))) ''E1'' = Some 2 \<and>
   objects (snd (snd (showTrack ''E2'' ''2026-01-15''
    (Inr \<lparr>resp_ok = True, resp_json = Inr \<lparr>points = []\<rparr>\<rparr>)
    (snd (snd (showTrack ''E2'' ''2026-01-15''
        (Inr \<lparr>resp_ok = True, resp_json = Inr \<lparr>points = [\<lparr>lat = 55.70, lon = 37.70\<rparr>]\<rparr>\<rparr>)
        (snd (snd (showTrack ''E1'' ''2026-01-15''
            (Inr \<lparr>resp_ok = True, resp_json = Inr \<lparr>points = [\<lparr>lat = 55.75, lon = 37.61\<rparr>]\<rparr>\<rparr>)
            (snd (window_onload (Inl NetworkError)))))))))))) = objects (snd (snd (showTrack ''E2'' ''2026-01-15''
        (Inr \<lparr>resp_ok = True, resp_json = Inr \<lparr>points = [\<lparr>lat = 55.70, lon = 37.70\<rparr>]\<rparr>\<rparr>)
        (snd (snd (showTrack ''E1'' ''2026-01-15''
            (Inr \<lparr>resp_ok = True, resp_json = Inr \<lparr>points = [\<lparr>lat = 55.75, lon = 37.61\<rparr>]\<rparr>\<rparr>)
            (snd (window_onload (Inl NetworkError)))))))))"
proof -
  define pg0 where "pg0 = snd (window_onload (Inl NetworkError))"
  define pg1 where "pg1 = snd (snd (showTrack ''E1'' ''2026-01-15''
      (Inr \<lparr>resp_ok = True, resp_json = Inr \<lparr>points = [\<lparr>lat = 55.75, lon = 37.61\<rparr>]\<rparr>\<rparr>) pg0))"
  define pg2 where "pg2 = snd (snd (showTrack ''E2'' ''2026-01-15''
      (Inr \<lparr>resp_ok = True, resp_json = Inr \<lparr>points = [\<lparr>lat = 55.70, lon = 37.70\<rparr>]\<rparr>\<rparr>) pg1))"
  let ?data = "\<lparr>points = []\<rparr>"
  let ?res = "\<lparr>resp_ok = True, resp_json = Inr ?data\<rparr>"
  have h1: "wf_page pg2"
    unfolding pg2_def pg1_def pg0_def by (intro wf_page_showTrack wf_page_onload)
  have h2: "(Inr ?res :: track fetched) = Inr ?res" by simp
  have h3: "resp_json ?res = Inr ?data" by simp
  have p1: "on_map pg1 = [0, 1, 2]" "polyline pg1 = Some 1" "markers pg1 ''E1'' = Some 2"
      "markers pg1 ''E2'' = None" "length (objects pg1) = 3"
    unfolding pg1_def pg0_def
    by (simp_all add: showTrack_parsed markers_lookup_def window_onload_page)
  have p2: "on_map pg2 = [0, 2, 3, 4]" "polyline pg2 = Some 3" "markers pg2 ''E1'' = Some 2"
      "markers pg2 ''E2'' = Some 4"
    unfolding pg2_def by (simp_all add: showTrack_parsed markers_lookup_def p1)
  from showTrack_clears_old_track [OF h1 h2 h3, of 3 "''E2''" "''2026-01-15''" 4 "''E1''" 2]
  have "on_map (snd (snd (showTrack ''E2'' ''2026-01-15'' (Inr ?res) pg2))) = [0, 2] \<and>
      markers (snd (snd (showTrack ''E2'' ''2026-01-15'' (Inr ?res) pg2))) ''E1'' = Some 2 \<and>
      objects (snd (snd (showTrack ''E2'' ''2026-01-15'' (Inr ?res) pg2))) = objects pg2"
    by (simp add: p2)
  then show ?thesis
    unfolding pg2_def pg1_def pg0_def .
qed

end
